theory Spec2Isabelle
  imports Main "HOL-Library.AList"
begin

section \<open>JavaScript values used by the SIP server\<close>

text \<open>
  A string is a list of characters, one character for one code unit of the decoded
  JavaScript string (code units below 256). A value that JavaScript may leave
  \<open>undefined\<close> or \<open>null\<close> (a header that is absent, the result of a failed match) is an
  option, \<open>None\<close> for the missing value. Ports and the numbers read from decimal digits
  are natural numbers, times are milliseconds as integers.
\<close>

type_synonym js_string = "string option"

abbreviation CR :: char where "CR \<equiv> CHR 0x0D"
abbreviation LF :: char where "LF \<equiv> CHR 0x0A"
abbreviation CRLF :: string where "CRLF \<equiv> [CR, LF]"

text \<open>The white space of \<open>\s\<close> and of \<open>String.prototype.trim\<close> among these code units.\<close>

definition is_space :: "char \<Rightarrow> bool" where
  "is_space c =
     (c \<in> set [CHR 0x09, CHR 0x0A, CHR 0x0B, CHR 0x0C, CHR 0x0D, CHR 0x20, CHR 0xA0])"

definition is_digit :: "char \<Rightarrow> bool" where
  "is_digit c = (c \<in> set ''0123456789'')"

definition is_upper :: "char \<Rightarrow> bool" where
  "is_upper c = (c \<in> set ''ABCDEFGHIJKLMNOPQRSTUVWXYZ'')"

definition is_lower :: "char \<Rightarrow> bool" where
  "is_lower c = (c \<in> set ''abcdefghijklmnopqrstuvwxyz'')"

text \<open>\<open>[^\r\n]\<close>\<close>

definition not_nl :: "char \<Rightarrow> bool" where
  "not_nl c = (c \<noteq> CR \<and> c \<noteq> LF)"

definition trim :: "string \<Rightarrow> string" where
  "trim s = rev (dropWhile is_space (rev (dropWhile is_space s)))"

definition startsWith :: "string \<Rightarrow> string \<Rightarrow> bool" where
  "startsWith s p = (take (length p) s = p)"

fun str_includes :: "string \<Rightarrow> string \<Rightarrow> bool" where
  "str_includes [] sub = (sub = [])"
| "str_includes (c # cs) sub = (startsWith (c # cs) sub \<or> str_includes cs sub)"

text \<open>Truthiness of a string value: defined and not empty.\<close>

fun truthy :: "js_string \<Rightarrow> bool" where
  "truthy None = False"
| "truthy (Some s) = (s \<noteq> [])"

text \<open>\<open>a || b\<close> on string values.\<close>

definition js_or :: "js_string \<Rightarrow> js_string \<Rightarrow> js_string" where
  "js_or a b = (if truthy a then a else b)"

text \<open>A value inside a template literal: \<open>undefined\<close> is rendered by name.\<close>

fun js_str :: "js_string \<Rightarrow> string" where
  "js_str None = ''undefined''"
| "js_str (Some s) = s"

text \<open>\<open>String.prototype.split\<close> with a string separator.\<close>

fun cons_hd :: "char \<Rightarrow> string list \<Rightarrow> string list" where
  "cons_hd c [] = [[c]]"
| "cons_hd c (l # ls) = (c # l) # ls"

fun split :: "string \<Rightarrow> string \<Rightarrow> string list" where
  "split sep [] = [[]]"
| "split sep (c # cs) =
     (if sep \<noteq> [] \<and> startsWith (c # cs) sep
      then [] # split sep (drop (length sep - 1) cs)
      else cons_hd c (split sep cs))"

text \<open>\<open>Array.prototype.join\<close>.\<close>

fun join :: "string \<Rightarrow> string list \<Rightarrow> string" where
  "join sep [] = []"
| "join sep [l] = l"
| "join sep (l # ls) = l @ sep @ join sep ls"

text \<open>Decimal rendering of a number (\<open>Number.prototype.toString\<close> on a natural number).\<close>

fun digit_of :: "nat \<Rightarrow> char" where
  "digit_of n = ''0123456789'' ! (n mod 10)"

fun toString :: "nat \<Rightarrow> string" where
  "toString n = (if n < 10 then [digit_of n] else toString (n div 10) @ [digit_of n])"

declare toString.simps [simp del]

text \<open>
  \<open>parseInt\<close> without a radix: leading white space, an optional sign, then the longest
  run of digits (hexadecimal after \<open>0x\<close>); \<open>None\<close> is \<open>NaN\<close>.
\<close>

fun digit_val :: "char \<Rightarrow> nat" where
  "digit_val c = length (takeWhile (\<lambda>d. d \<noteq> c) ''0123456789'')"

definition is_hex :: "char \<Rightarrow> bool" where
  "is_hex c = (c \<in> set ''0123456789abcdefABCDEF'')"

fun hex_val :: "char \<Rightarrow> nat" where
  "hex_val c =
     (if is_digit c then digit_val c
      else if c \<in> set ''abcdef'' then 10 + length (takeWhile (\<lambda>d. d \<noteq> c) ''abcdef'')
      else 10 + length (takeWhile (\<lambda>d. d \<noteq> c) ''ABCDEF''))"

definition digits_value :: "string \<Rightarrow> nat" where
  "digits_value ds = foldl (\<lambda>a c. 10 * a + digit_val c) 0 ds"

definition hex_value :: "string \<Rightarrow> nat" where
  "hex_value ds = foldl (\<lambda>a c. 16 * a + hex_val c) 0 ds"

definition parse_magnitude :: "string \<Rightarrow> nat option" where
  "parse_magnitude s =
     (if startsWith s ''0x'' \<or> startsWith s ''0X''
      then (let ds = takeWhile is_hex (drop 2 s)
            in if ds = [] then None else Some (hex_value ds))
      else (let ds = takeWhile is_digit s
            in if ds = [] then None else Some (digits_value ds)))"

definition parseInt :: "string \<Rightarrow> int option" where
  "parseInt s =
     (let t = dropWhile is_space s
      in case t of
           [] \<Rightarrow> None
         | c # cs \<Rightarrow>
             if c = CHR ''-'' then map_option (\<lambda>n. - int n) (parse_magnitude cs)
             else if c = CHR ''+'' then map_option int (parse_magnitude cs)
             else map_option int (parse_magnitude t))"

text \<open>
  A JavaScript \<open>Map\<close> keeps its entries in insertion order: an association list with
  distinct keys. \<open>Map.set\<close> replaces the value of an existing key in place and appends a
  new key, \<open>Map.delete\<close> drops the entry.
\<close>

type_synonym ('k, 'v) js_map = "('k \<times> 'v) list"

definition Map_get :: "('k, 'v) js_map \<Rightarrow> 'k \<Rightarrow> 'v option" where
  "Map_get m k = map_of m k"

definition Map_has :: "('k, 'v) js_map \<Rightarrow> 'k \<Rightarrow> bool" where
  "Map_has m k = (map_of m k \<noteq> None)"

definition Map_set :: "'k \<Rightarrow> 'v \<Rightarrow> ('k, 'v) js_map \<Rightarrow> ('k, 'v) js_map" where
  "Map_set k v m = AList.update k v m"

definition Map_delete :: "'k \<Rightarrow> ('k, 'v) js_map \<Rightarrow> ('k, 'v) js_map" where
  "Map_delete k m = AList.delete k m"

text \<open>
  Regular-expression replacement. A pattern is a function that, applied to the text at
  the current position, returns the matched text and the text after it when the pattern
  matches there. \<open>replace_all\<close> is \<open>String.prototype.replace\<close> with a \<open>/g\<close> pattern and a
  replacement function: leftmost matches, scanning on after each match. The patterns of
  this program never match the empty string, which is what the length test records.
  \<open>replace_first\<close> is \<open>replace\<close> with a pattern without \<open>/g\<close>.
\<close>

type_synonym pattern = "string \<Rightarrow> (string \<times> string) option"

fun replace_all :: "pattern \<Rightarrow> (string \<Rightarrow> string) \<Rightarrow> string \<Rightarrow> string" where
  "replace_all re f [] = []"
| "replace_all re f (c # cs) =
     (case re (c # cs) of
        None \<Rightarrow> c # replace_all re f cs
      | Some (m, rest) \<Rightarrow>
          if length rest \<le> length cs then f m @ replace_all re f rest
          else c # replace_all re f cs)"

fun replace_first :: "pattern \<Rightarrow> (string \<Rightarrow> string) \<Rightarrow> string \<Rightarrow> string" where
  "replace_first re f [] = []"
| "replace_first re f (c # cs) =
     (case re (c # cs) of
        None \<Rightarrow> c # replace_first re f cs
      | Some (m, rest) \<Rightarrow> f m @ rest)"

text \<open>\<open>String.prototype.match\<close> with a pattern without \<open>/g\<close>: the leftmost match.\<close>

fun find_match :: "pattern \<Rightarrow> string \<Rightarrow> string option" where
  "find_match re [] = None"
| "find_match re (c # cs) =
     (case re (c # cs) of
        None \<Rightarrow> find_match re cs
      | Some (m, rest) \<Rightarrow> Some m)"

section \<open>Configuration (config.js)\<close>

record config =
  sip_port :: nat
  sip_serverAddress :: string
  rtp_port :: nat
  extensions_min :: nat
  extensions_max :: nat
  timeouts_callSetup :: int

text \<open>\<open>config.validExtensions\<close>: the decimal strings of the numbers from min to max.\<close>

definition validExtensions :: "config \<Rightarrow> string list" where
  "validExtensions cfg = map toString [extensions_min cfg ..< Suc (extensions_max cfg)]"

section \<open>RTP proxy (rtp-proxy.js)\<close>

record stream =
  fromAddress :: string
  fromPort :: nat
  toAddress :: string
  toPort :: nat

type_synonym streams = "(js_string, stream) js_map"

text \<open>\<open>callId + '_reverse'\<close>, for a call id that is a string or \<open>undefined\<close>.\<close>

definition reverse_key :: "js_string \<Rightarrow> js_string" where
  "reverse_key callId = Some (js_str callId @ ''_reverse'')"

text \<open>\<open>RtpProxy.addStream\<close>: two \<open>Map.set\<close> calls, the second under the suffixed key.\<close>

definition addStream ::
  "js_string \<Rightarrow> string \<Rightarrow> nat \<Rightarrow> string \<Rightarrow> nat \<Rightarrow> streams \<Rightarrow> streams" where
  "addStream callId fromAddr fromP toAddr toP activeStreams =
     Map_set (reverse_key callId)
       \<lparr>fromAddress = toAddr, fromPort = toP, toAddress = fromAddr, toPort = fromP\<rparr>
       (Map_set callId
          \<lparr>fromAddress = fromAddr, fromPort = fromP, toAddress = toAddr, toPort = toP\<rparr>
          activeStreams)"

text \<open>\<open>RtpProxy.removeStream\<close>: each key is deleted when the table has it.\<close>

definition removeStream :: "js_string \<Rightarrow> streams \<Rightarrow> streams" where
  "removeStream callId activeStreams =
     (let s1 = (if Map_has activeStreams callId then Map_delete callId activeStreams
                else activeStreams)
      in if Map_has s1 (reverse_key callId) then Map_delete (reverse_key callId) s1
         else s1)"







subsection \<open>The SDP rewriter\<close>

text \<open>
  The three patterns of \<open>modifySdp\<close> and the pattern of its inner replacement.
  \<open>/c=IN IP4 [^\r\n]+/\<close>: the literal, then the rest of the line, which is not empty.
\<close>

definition re_c_in_ip4 :: pattern where
  "re_c_in_ip4 s =
     (if startsWith s ''c=IN IP4 '' \<and> takeWhile not_nl (drop 9 s) \<noteq> []
      then Some (''c=IN IP4 '' @ takeWhile not_nl (drop 9 s), dropWhile not_nl (drop 9 s))
      else None)"

text \<open>\<open>/IN IP4 [^\r\n]+/\<close>\<close>

definition re_in_ip4 :: pattern where
  "re_in_ip4 s =
     (if startsWith s ''IN IP4 '' \<and> takeWhile not_nl (drop 7 s) \<noteq> []
      then Some (''IN IP4 '' @ takeWhile not_nl (drop 7 s), dropWhile not_nl (drop 7 s))
      else None)"

text \<open>
  \<open>/o=[^\s]+ [^\s]+ [^\s]+ IN IP4 [^\r\n]+/\<close>. Each \<open>[^\s]+\<close> is greedy and is followed by
  a literal space: it takes the whole run of non-space characters, and a shorter run
  would be followed by a non-space character, so backtracking finds no other match.
\<close>

definition re_o_line :: pattern where
  "re_o_line s =
     (if \<not> startsWith s ''o='' then None
      else let t1 = takeWhile (\<lambda>c. \<not> is_space c) (drop 2 s);
               r1 = dropWhile (\<lambda>c. \<not> is_space c) (drop 2 s)
           in if t1 = [] \<or> \<not> startsWith r1 '' '' then None
      else let t2 = takeWhile (\<lambda>c. \<not> is_space c) (drop 1 r1);
               r2 = dropWhile (\<lambda>c. \<not> is_space c) (drop 1 r1)
           in if t2 = [] \<or> \<not> startsWith r2 '' '' then None
      else let t3 = takeWhile (\<lambda>c. \<not> is_space c) (drop 1 r2);
               r3 = dropWhile (\<lambda>c. \<not> is_space c) (drop 1 r2)
           in if t3 = [] \<or> \<not> startsWith r3 '' IN IP4 '' \<or> takeWhile not_nl (drop 8 r3) = []
              then None
      else Some (''o='' @ t1 @ '' '' @ t2 @ '' '' @ t3 @ '' IN IP4 '' @ takeWhile not_nl (drop 8 r3),
                 dropWhile not_nl (drop 8 r3)))"

text \<open>\<open>/m=audio [0-9]+/\<close>\<close>

definition re_m_audio :: pattern where
  "re_m_audio s =
     (if startsWith s ''m=audio '' \<and> takeWhile is_digit (drop 8 s) \<noteq> []
      then Some (''m=audio '' @ takeWhile is_digit (drop 8 s), dropWhile is_digit (drop 8 s))
      else None)"

text \<open>
  \<open>RtpProxy.modifySdp\<close>. \<open>this.serverAddress\<close> and \<open>this.serverPort\<close> are the
  configuration's \<open>sip.serverAddress\<close> and \<open>rtp.port\<close>; the call id is only logged. The
  replacement strings are taken literally, which is what JavaScript does when the server
  address has no \<open>$\<close>.
\<close>

definition modifySdp :: "config \<Rightarrow> string \<Rightarrow> js_string \<Rightarrow> string" where
  "modifySdp cfg sdp callId =
     (let serverAddress = sip_serverAddress cfg;
          serverPort = rtp_port cfg;
          m1 = replace_all re_c_in_ip4 (\<lambda>_. ''c=IN IP4 '' @ serverAddress) sdp;
          m2 = replace_all re_o_line
                 (\<lambda>m. replace_first re_in_ip4 (\<lambda>_. ''IN IP4 '' @ serverAddress) m) m1;
          m3 = replace_all re_m_audio (\<lambda>_. ''m=audio '' @ toString serverPort) m2
      in m3)"

section \<open>Validator (utils/sip-validator.js)\<close>

text \<open>
  \<open>header.match(/<([^>]+)>/)\<close>, group 1: the leftmost opening angle bracket that is
  followed by at least one character other than the closing bracket and then by the
  closing bracket.
\<close>

fun bracket_match :: "string \<Rightarrow> string option" where
  "bracket_match [] = None"
| "bracket_match (c # cs) =
     (if c = CHR ''<'' \<and> takeWhile (\<lambda>x. x \<noteq> CHR ''>'') cs \<noteq> []
         \<and> dropWhile (\<lambda>x. x \<noteq> CHR ''>'') cs \<noteq> []
      then Some (takeWhile (\<lambda>x. x \<noteq> CHR ''>'') cs)
      else bracket_match cs)"

definition extractUri :: "js_string \<Rightarrow> js_string" where
  "extractUri header =
     (case header of
        None \<Rightarrow> None
      | Some h \<Rightarrow>
          if h = [] then None
          else (case bracket_match h of
                  Some u \<Rightarrow> Some u
                | None \<Rightarrow> Some (trim h)))"

text \<open>
  \<open>/^sip:(\d+)@([^:]+)(?::(\d+))?(?:;[^;]*)*$/\<close>, returning groups 1, 2 and 3. The domain
  group is greedy and runs to the first colon or to the end of the string. At the end of
  the string the match is complete. At a colon the port group needs digits that are
  followed by the end of the string or by \<open>;\<close> (the parameter groups then take all the
  rest). When that fails, the domain gives characters back until the parameters can
  start: at its last \<open>;\<close>, if there is one after the first character, with no port.
\<close>

definition sip_uri_match :: "string \<Rightarrow> (string \<times> string \<times> js_string) option" where
  "sip_uri_match uri =
     (if \<not> startsWith uri ''sip:'' then None
      else let n = takeWhile is_digit (drop 4 uri);
               r0 = dropWhile is_digit (drop 4 uri)
           in if n = [] \<or> \<not> startsWith r0 ''@'' then None
      else let rest = drop 1 r0;
               d0 = takeWhile (\<lambda>c. c \<noteq> CHR '':'') rest;
               after = dropWhile (\<lambda>c. c \<noteq> CHR '':'') rest
           in if d0 = [] then None
              else if after = [] then Some (n, d0, None)
      else let p = takeWhile is_digit (drop 1 after);
               tail = dropWhile is_digit (drop 1 after)
           in if p \<noteq> [] \<and> (tail = [] \<or> startsWith tail '';'') then Some (n, d0, Some p)
      else let d1 = rev (drop 1 (dropWhile (\<lambda>c. c \<noteq> CHR '';'') (rev d0)))
           in if CHR '';'' \<in> set d0 \<and> d1 \<noteq> [] then Some (n, d1, None) else None)"

record uri_parts =
  uri_number :: string
  uri_domain :: string
  uri_port :: string

text \<open>\<open>SipValidator.validateSipUri\<close>: \<open>Inl\<close> carries the error of an invalid result.\<close>

definition validateSipUri :: "config \<Rightarrow> js_string \<Rightarrow> string + uri_parts" where
  "validateSipUri cfg uri =
     (case uri of
        None \<Rightarrow> Inl ''URI is required and must be a string''
      | Some u \<Rightarrow>
          if u = [] then Inl ''URI is required and must be a string''
          else (case sip_uri_match u of
                  None \<Rightarrow> Inl ''Invalid SIP URI format''
                | Some (number, domain, port) \<Rightarrow>
                    if number \<notin> set (validExtensions cfg)
                    then Inl (''Invalid extension number: '' @ number @ ''. Valid range: ''
                              @ toString (extensions_min cfg) @ ''-''
                              @ toString (extensions_max cfg))
                    else Inr \<lparr>uri_number = number, uri_domain = domain,
                              uri_port = js_str (js_or port (Some ''5060''))\<rparr>))"

text \<open>The character class \<open>[a-zA-Z0-9._-]\<close>.\<close>

definition is_callid_char :: "char \<Rightarrow> bool" where
  "is_callid_char c = (is_lower c \<or> is_upper c \<or> is_digit c \<or> c \<in> set ''._-'')"

text \<open>
  \<open>/^[a-zA-Z0-9._-]+(?:@[a-zA-Z0-9._-]+)?(?:-[a-zA-Z0-9._-]+)?$/.test\<close>. The hyphen is in
  the class, so the last group adds no strings: the pattern accepts a run of class
  characters, optionally followed by \<open>@\<close> and a second run.
\<close>

definition callIdPattern :: "string \<Rightarrow> bool" where
  "callIdPattern s =
     (let a = takeWhile is_callid_char s; r = dropWhile is_callid_char s
      in a \<noteq> [] \<and> (r = [] \<or> (startsWith r ''@'' \<and> drop 1 r \<noteq> []
                                 \<and> list_all is_callid_char (drop 1 r))))"

text \<open>\<open>/^\d+\s+[A-Z]+$/.test\<close>\<close>

definition cseqPattern :: "string \<Rightarrow> bool" where
  "cseqPattern s =
     (let d = takeWhile is_digit s; r = dropWhile is_digit s;
          w = takeWhile is_space r; u = dropWhile is_space r
      in d \<noteq> [] \<and> w \<noteq> [] \<and> u \<noteq> [] \<and> list_all is_upper u)"

text \<open>
  \<open>/^SIP\/2\.0\/UDP\s+[^:]+:\d+(?:;[^;]*)*$/.test\<close>. The text between the prefix and the
  first colon is split into white space and host: it starts with white space and has a
  second character. The digits after the colon end the string or are followed by \<open>;\<close>.
\<close>

definition viaPattern :: "string \<Rightarrow> bool" where
  "viaPattern s =
     (startsWith s ''SIP/2.0/UDP'' \<and>
      (let rest = drop 11 s;
           w = takeWhile (\<lambda>c. c \<noteq> CHR '':'') rest;
           after = dropWhile (\<lambda>c. c \<noteq> CHR '':'') rest;
           p = takeWhile is_digit (drop 1 after);
           tail = dropWhile is_digit (drop 1 after)
       in length w \<ge> 2 \<and> is_space (hd w) \<and> after \<noteq> [] \<and> p \<noteq> []
          \<and> (tail = [] \<or> startsWith tail '';'')))"

type_synonym headers = "(string, string) js_map"

text \<open>
  \<open>SipValidator.validateHeaders\<close>, returning the list \<open>errors\<close>; the result is valid when
  the list is empty.
\<close>

definition validateHeaders :: "headers \<Rightarrow> string list \<Rightarrow> string list" where
  "validateHeaders hs requiredHeaders =
     (let missingHeaders = filter (\<lambda>h. \<not> truthy (Map_get hs h)) requiredHeaders;
          e1 = (if missingHeaders \<noteq> []
                then [''Missing required headers: '' @ join '', '' missingHeaders] else []);
          e2 = (case Map_get hs ''Call-ID'' of
                  Some v \<Rightarrow> if v \<noteq> [] \<and> \<not> callIdPattern v then [''Invalid Call-ID format'']
                            else []
                | None \<Rightarrow> []);
          e3 = (case Map_get hs ''CSeq'' of
                  Some v \<Rightarrow> if v \<noteq> [] \<and> \<not> cseqPattern v then [''Invalid CSeq format''] else []
                | None \<Rightarrow> []);
          e4 = (case Map_get hs ''Via'' of
                  Some v \<Rightarrow> if v \<noteq> [] \<and> \<not> viaPattern v then [''Invalid Via header format'']
                            else []
                | None \<Rightarrow> [])
      in e1 @ e2 @ e3 @ e4)"

text \<open>The result of a validation: \<open>{valid: true}\<close>, or invalid with \<open>error\<close> or \<open>errors\<close>.\<close>

datatype validation = Valid | Invalid_error string | Invalid_errors "string list"

text \<open>\<open>SipValidator.validateSdp\<close>\<close>

definition validateSdp :: "string \<Rightarrow> validation" where
  "validateSdp sdp =
     (if sdp = [] then Invalid_error ''SDP is required and must be a string''
      else let lines = split CRLF sdp;
               requiredSections = [''v='', ''o='', ''s='', ''c='', ''t='', ''m=''];
               e1 = map (\<lambda>section. ''Missing required SDP section: '' @ section)
                      (filter (\<lambda>section. \<not> list_ex (\<lambda>line. startsWith line section) lines)
                         requiredSections);
               e2 = (case find (\<lambda>line. startsWith line ''m='') lines of
                       None \<Rightarrow> []
                     | Some mediaLine \<Rightarrow>
                         (let mediaParts = split '' '' mediaLine
                          in if length mediaParts < 4 then [''Invalid media line format'']
                             else (let mediaType = drop 2 (mediaParts ! 0);
                                       port = parseInt (mediaParts ! 1)
                                   in (if mediaType \<noteq> ''audio''
                                       then [''Only audio media type is supported''] else [])
                                      @ (case port of
                                           None \<Rightarrow> [''Invalid RTP port number'']
                                         | Some p \<Rightarrow>
                                             if p < 1024 \<or> p > 65535
                                             then [''Invalid RTP port number''] else []))));
               errors = e1 @ e2
           in if errors = [] then Valid else Invalid_errors errors)"

record sip_message =
  firstLine :: string
  headers :: headers
  body :: string

text \<open>\<open>SipValidator.validateInviteRequest\<close>\<close>

definition validateInviteRequest :: "config \<Rightarrow> sip_message \<Rightarrow> validation" where
  "validateInviteRequest cfg parsedMessage =
     (let headerValidation =
            validateHeaders (headers parsedMessage)
              [''To'', ''From'', ''Call-ID'', ''CSeq'', ''Contact'']
      in if headerValidation \<noteq> [] then Invalid_errors headerValidation
      else case extractUri (Map_get (headers parsedMessage) ''To'') of
             None \<Rightarrow> Invalid_error ''Invalid To header format''
           | Some toUri \<Rightarrow>
      if toUri = [] then Invalid_error ''Invalid To header format''
      else case validateSipUri cfg (Some toUri) of
             Inl e \<Rightarrow> Invalid_error e
           | Inr toValidation \<Rightarrow>
      (case extractUri (Map_get (headers parsedMessage) ''From'') of
             None \<Rightarrow> Invalid_error ''Invalid From header format''
           | Some fromUri \<Rightarrow>
      if fromUri = [] then Invalid_error ''Invalid From header format''
      else case validateSipUri cfg (Some fromUri) of
             Inl e \<Rightarrow> Invalid_error e
           | Inr fromValidation \<Rightarrow>
      if uri_number toValidation = uri_number fromValidation
      then Invalid_error ''Cannot call yourself''
      else if body parsedMessage \<noteq> []
              \<and> (case Map_get (headers parsedMessage) ''Content-Type'' of
                    None \<Rightarrow> False
                  | Some ct \<Rightarrow> str_includes ct ''application/sdp'')
      then (case validateSdp (body parsedMessage) of
              Valid \<Rightarrow> Valid
            | v \<Rightarrow> v)
      else Valid))"

section \<open>Registrar (utils/user-manager.js)\<close>

record user =
  number :: js_string
  uri :: string
  user_address :: string
  user_port :: nat
  expires :: int
  expiresAt :: int
  registeredAt :: int
  lastSeen :: int
  status :: string
  registrationCount :: nat

datatype registration_event =
    REGISTER js_string string nat int int
  | UNREGISTER js_string string nat int

record user_manager =
  registeredUsers :: "(js_string, user) js_map"
  registrationHistory :: "registration_event list"

definition maxHistorySize :: nat where
  "maxHistorySize = 1000"

text \<open>\<open>UserManager.addToHistory\<close>; \<open>slice(-n)\<close> keeps the last \<open>n\<close> entries.\<close>

definition user_addToHistory :: "registration_event \<Rightarrow> user_manager \<Rightarrow> user_manager" where
  "user_addToHistory entry um =
     (let h = registrationHistory um @ [entry]
      in um\<lparr>registrationHistory :=
              (if length h > maxHistorySize then drop (length h - maxHistorySize) h else h)\<rparr>)"

text \<open>\<open>UserManager.registerUser\<close>, at time \<open>now\<close>; it returns the binding it stored.\<close>

definition registerUser ::
  "int \<Rightarrow> js_string \<Rightarrow> string \<Rightarrow> string \<Rightarrow> nat \<Rightarrow> int \<Rightarrow> user_manager
     \<Rightarrow> user \<times> user_manager" where
  "registerUser now num contactUri addr prt exp um =
     (let userData0 = \<lparr>number = num, uri = contactUri, user_address = addr, user_port = prt,
                        expires = exp, expiresAt = now + exp * 1000, registeredAt = now,
                        lastSeen = now, status = ''REGISTERED'', registrationCount = 1\<rparr>;
          userData = (case Map_get (registeredUsers um) num of
                        None \<Rightarrow> userData0
                      | Some existingUser \<Rightarrow>
                          userData0\<lparr>registrationCount := registrationCount existingUser + 1,
                                    registeredAt := registeredAt existingUser\<rparr>);
          um1 = um\<lparr>registeredUsers := Map_set num userData (registeredUsers um)\<rparr>
      in (userData, user_addToHistory (REGISTER num addr prt exp now) um1))"

text \<open>\<open>UserManager.getUser\<close>\<close>

definition getUser :: "user_manager \<Rightarrow> js_string \<Rightarrow> user option" where
  "getUser um num = Map_get (registeredUsers um) num"

text \<open>\<open>UserManager.isUserRegistered\<close>, at time \<open>now\<close>: an expired binding is deleted.\<close>

definition isUserRegistered :: "int \<Rightarrow> js_string \<Rightarrow> user_manager \<Rightarrow> bool \<times> user_manager" where
  "isUserRegistered now num um =
     (case Map_get (registeredUsers um) num of
        None \<Rightarrow> (False, um)
      | Some u \<Rightarrow>
          if now > expiresAt u
          then (False, um\<lparr>registeredUsers := Map_delete num (registeredUsers um)\<rparr>)
          else (True, um))"

text \<open>\<open>UserManager.cleanup\<close>, at time \<open>now\<close>.\<close>

definition user_cleanup :: "int \<Rightarrow> user_manager \<Rightarrow> user_manager" where
  "user_cleanup now um =
     (let expiredUsers = map fst (filter (\<lambda>(num, u). now > expiresAt u) (registeredUsers um))
      in um\<lparr>registeredUsers := fold Map_delete expiredUsers (registeredUsers um)\<rparr>)"

section \<open>Dialog manager (utils/call-manager.js)\<close>

datatype call_state = INITIATED | RINGING | ESTABLISHED | TERMINATED

record call =
  callId :: js_string
  fromNumber :: js_string
  toNumber :: js_string
  call_fromAddress :: string
  call_fromPort :: nat
  call_toAddress :: js_string
  call_toPort :: "nat option"
  fromRtpPort :: "nat option"
  toRtpPort :: "nat option"
  sdp :: string
  state :: call_state
  inviteTime :: int
  answerTime :: "int option"
  endTime :: "int option"
  duration :: int
  terminating :: bool
  originalVia :: js_string
  originalFrom :: js_string
  originalTo :: js_string
  originalCSeq :: js_string
  originalContact :: js_string
  waitingForAck :: "bool option"
  terminationReason :: js_string
  retryCount :: nat
  maxRetries :: nat

record call_manager =
  activeCalls :: "(js_string, call) js_map"
  callHistory :: "call list"

text \<open>\<open>CallManager.createCall\<close>, at time \<open>now\<close>.\<close>

definition createCall ::
  "int \<Rightarrow> js_string \<Rightarrow> js_string \<Rightarrow> js_string \<Rightarrow> string \<Rightarrow> nat \<Rightarrow> string \<Rightarrow> call_manager
     \<Rightarrow> call \<times> call_manager" where
  "createCall now cid fromNum toNum fromAddr fromP sdpBody cm =
     (let callData =
            \<lparr>callId = cid, fromNumber = fromNum, toNumber = toNum,
             call_fromAddress = fromAddr, call_fromPort = fromP,
             call_toAddress = None, call_toPort = None,
             fromRtpPort = None, toRtpPort = None, sdp = sdpBody, state = INITIATED,
             inviteTime = now, answerTime = None, endTime = None, duration = 0,
             terminating = False, originalVia = None, originalFrom = None,
             originalTo = None, originalCSeq = None, originalContact = None,
             waitingForAck = None, terminationReason = None,
             retryCount = 0, maxRetries = 3\<rparr>
      in (callData, cm\<lparr>activeCalls := Map_set cid callData (activeCalls cm)\<rparr>))"

definition getCall :: "call_manager \<Rightarrow> js_string \<Rightarrow> call option" where
  "getCall cm cid = Map_get (activeCalls cm) cid"

text \<open>
  The properties that the engine passes as \<open>additionalData\<close>; \<open>Object.assign\<close> copies them
  onto the call in order.
\<close>

datatype call_property =
    OriginalVia js_string
  | OriginalFrom js_string
  | OriginalTo js_string
  | OriginalCSeq js_string
  | OriginalContact js_string
  | FromRtpPort nat
  | WaitingForAck bool

fun assign_property :: "call \<Rightarrow> call_property \<Rightarrow> call" where
  "assign_property c (OriginalVia v) = c\<lparr>originalVia := v\<rparr>"
| "assign_property c (OriginalFrom v) = c\<lparr>originalFrom := v\<rparr>"
| "assign_property c (OriginalTo v) = c\<lparr>originalTo := v\<rparr>"
| "assign_property c (OriginalCSeq v) = c\<lparr>originalCSeq := v\<rparr>"
| "assign_property c (OriginalContact v) = c\<lparr>originalContact := v\<rparr>"
| "assign_property c (FromRtpPort p) = c\<lparr>fromRtpPort := Some p\<rparr>"
| "assign_property c (WaitingForAck b) = c\<lparr>waitingForAck := Some b\<rparr>"

definition Object_assign :: "call \<Rightarrow> call_property list \<Rightarrow> call" where
  "Object_assign c additionalData = foldl assign_property c additionalData"

text \<open>\<open>CallManager.updateCallState\<close>\<close>

definition updateCallState ::
  "js_string \<Rightarrow> call_state \<Rightarrow> call_property list \<Rightarrow> call_manager \<Rightarrow> bool \<times> call_manager" where
  "updateCallState cid st additionalData cm =
     (case Map_get (activeCalls cm) cid of
        None \<Rightarrow> (False, cm)
      | Some c \<Rightarrow>
          (True, cm\<lparr>activeCalls :=
                     Map_set cid (Object_assign (c\<lparr>state := st\<rparr>) additionalData)
                       (activeCalls cm)\<rparr>))"

text \<open>\<open>CallManager.setTarget\<close>\<close>

definition setTarget :: "js_string \<Rightarrow> string \<Rightarrow> nat \<Rightarrow> call_manager \<Rightarrow> bool \<times> call_manager" where
  "setTarget cid toAddr toP cm =
     (case Map_get (activeCalls cm) cid of
        None \<Rightarrow> (False, cm)
      | Some c \<Rightarrow>
          (True, cm\<lparr>activeCalls :=
                     Map_set cid (c\<lparr>call_toAddress := Some toAddr, call_toPort := Some toP,
                                    state := RINGING\<rparr>)
                       (activeCalls cm)\<rparr>))"

text \<open>\<open>CallManager.setRtpPorts\<close>; a port argument may be \<open>null\<close>.\<close>

definition setRtpPorts ::
  "js_string \<Rightarrow> nat option \<Rightarrow> nat option \<Rightarrow> call_manager \<Rightarrow> bool \<times> call_manager" where
  "setRtpPorts cid fromRtp toRtp cm =
     (case Map_get (activeCalls cm) cid of
        None \<Rightarrow> (False, cm)
      | Some c \<Rightarrow>
          (True, cm\<lparr>activeCalls :=
                     Map_set cid (c\<lparr>fromRtpPort := fromRtp, toRtpPort := toRtp\<rparr>)
                       (activeCalls cm)\<rparr>))"

text \<open>\<open>CallManager.answerCall\<close>, at time \<open>now\<close>.\<close>

definition answerCall :: "int \<Rightarrow> js_string \<Rightarrow> call_manager \<Rightarrow> bool \<times> call_manager" where
  "answerCall now cid cm =
     (case Map_get (activeCalls cm) cid of
        None \<Rightarrow> (False, cm)
      | Some c \<Rightarrow>
          (True, cm\<lparr>activeCalls :=
                     Map_set cid (c\<lparr>state := ESTABLISHED, answerTime := Some now\<rparr>)
                       (activeCalls cm)\<rparr>))"

text \<open>\<open>CallManager.addToHistory\<close>\<close>

definition call_addToHistory :: "call \<Rightarrow> call_manager \<Rightarrow> call_manager" where
  "call_addToHistory c cm =
     (let h = callHistory cm @ [c]
      in cm\<lparr>callHistory :=
              (if length h > maxHistorySize then drop (length h - maxHistorySize) h else h)\<rparr>)"

text \<open>
  \<open>CallManager.endCall\<close>, at time \<open>now\<close>; \<open>Math.floor\<close> of the quotient is \<open>div\<close>. The
  result is the ended call, or \<open>None\<close> for \<open>false\<close>.
\<close>

definition endCall ::
  "int \<Rightarrow> js_string \<Rightarrow> string \<Rightarrow> call_manager \<Rightarrow> call option \<times> call_manager" where
  "endCall now cid reason cm =
     (case Map_get (activeCalls cm) cid of
        None \<Rightarrow> (None, cm)
      | Some c \<Rightarrow>
          (let c1 = c\<lparr>state := TERMINATED, endTime := Some now, terminating := True,
                      terminationReason := Some reason\<rparr>;
               c2 = (case answerTime c1 of
                       None \<Rightarrow> c1
                     | Some t \<Rightarrow> c1\<lparr>duration := (now - t) div 1000\<rparr>);
               cm1 = call_addToHistory c2 cm
           in (Some c2, cm1\<lparr>activeCalls := Map_delete cid (activeCalls cm1)\<rparr>)))"

text \<open>\<open>CallManager.isNumberBusy\<close>\<close>

definition isNumberBusy :: "call_manager \<Rightarrow> js_string \<Rightarrow> bool" where
  "isNumberBusy cm num =
     list_ex (\<lambda>c. (fromNumber c = num \<or> toNumber c = num)
                  \<and> (state c = RINGING \<or> state c = ESTABLISHED))
       (map snd (activeCalls cm))"

section \<open>SIP engine (index.js)\<close>

subsection \<open>Message codec\<close>

text \<open>
  \<open>headers[key] = value\<close> on the plain object \<open>headers\<close>: the entries are kept as an
  association list in assignment order, which key lookup does not observe. Assigning a
  string to the key \<open>__proto__\<close> of a plain object creates no property.
\<close>

definition header_assign :: "string \<Rightarrow> string \<Rightarrow> headers \<Rightarrow> headers" where
  "header_assign key v hs = (if key = ''__proto__'' then hs else Map_set key v hs)"

text \<open>
  The loop of \<open>parseSipMessage\<close> over the lines after the first, with its variables
  \<open>headers\<close>, \<open>body\<close> and \<open>bodyStart\<close>. \<open>indexOf(':')\<close> finds the first colon.
\<close>

fun parse_lines :: "string list \<Rightarrow> headers \<Rightarrow> string \<Rightarrow> bool \<Rightarrow> headers \<times> string" where
  "parse_lines [] hs b bodyStart = (hs, b)"
| "parse_lines (line # lines) hs b bodyStart =
     (if line = [] then parse_lines lines hs b True
      else if bodyStart then parse_lines lines hs (b @ line @ CRLF) bodyStart
      else if CHR '':'' \<in> set line
      then parse_lines lines
             (header_assign (trim (takeWhile (\<lambda>c. c \<noteq> CHR '':'') line))
                (trim (drop 1 (dropWhile (\<lambda>c. c \<noteq> CHR '':'') line))) hs)
             b bodyStart
      else parse_lines lines hs b bodyStart)"

text \<open>\<open>parseSipMessage\<close>; \<open>split\<close> always returns a first element.\<close>

definition parseSipMessage :: "string \<Rightarrow> sip_message" where
  "parseSipMessage message =
     (case split CRLF message of
        [] \<Rightarrow> \<lparr>firstLine = [], headers = [], body = []\<rparr>
      | first # lines \<Rightarrow>
          (case parse_lines lines [] [] False of
             (hs, b) \<Rightarrow> \<lparr>firstLine = first, headers = hs, body = trim b\<rparr>))"

text \<open>
  \<open>createSipResponse\<close>. The header object is the list of its entries in the order of
  \<open>Object.entries\<close>; a header value may be \<open>undefined\<close>, and so may the status code that
  the engine cuts out of a status line.
\<close>

definition createSipResponse ::
  "js_string \<Rightarrow> string \<Rightarrow> (string \<times> js_string) list \<Rightarrow> string \<Rightarrow> string" where
  "createSipResponse statusCode statusText hs b =
     ''SIP/2.0 '' @ js_str statusCode @ '' '' @ statusText @ CRLF
     @ concat (map (\<lambda>(key, v). key @ '': '' @ js_str v @ CRLF) hs)
     @ (if b \<noteq> [] then ''Content-Length: '' @ toString (length b) @ CRLF else [])
     @ CRLF
     @ (if b \<noteq> [] then b else [])"

text \<open>\<open>uri.match(/sip:(\d+)@/)\<close>, group 1.\<close>

fun sip_number_match :: "string \<Rightarrow> string option" where
  "sip_number_match [] = None"
| "sip_number_match (c # cs) =
     (if startsWith (c # cs) ''sip:'' \<and> takeWhile is_digit (drop 3 cs) \<noteq> []
         \<and> startsWith (dropWhile is_digit (drop 3 cs)) ''@''
      then Some (takeWhile is_digit (drop 3 cs))
      else sip_number_match cs)"

text \<open>\<open>extractNumber\<close> on a string; \<open>None\<close> is \<open>null\<close>.\<close>

definition extractNumber :: "string \<Rightarrow> js_string" where
  "extractNumber u = sip_number_match u"

text \<open>\<open>body.match(/m=audio ([0-9]+)/)\<close>, group 1.\<close>

definition rtpPortMatch :: "string \<Rightarrow> string option" where
  "rtpPortMatch b = map_option (drop 8) (find_match re_m_audio b)"

subsection \<open>State and datagrams\<close>

record rinfo =
  address :: string
  port :: nat

text \<open>One call of \<open>sipServer.send(message, port, address)\<close>.\<close>

record packet =
  payload :: string
  dest_port :: "nat option"
  dest_address :: js_string

record server =
  userManager :: user_manager
  callManager :: call_manager
  activeStreams :: streams

text \<open>A value that may be \<open>null\<close>, inside a template literal.\<close>

fun null_str :: "js_string \<Rightarrow> string" where
  "null_str None = ''null''"
| "null_str (Some s) = s"

fun null_num_str :: "nat option \<Rightarrow> string" where
  "null_num_str None = ''null''"
| "null_num_str (Some n) = toString n"

definition is_sdp :: "sip_message \<Rightarrow> bool" where
  "is_sdp parsed =
     (body parsed \<noteq> []
      \<and> (case Map_get (headers parsed) ''Content-Type'' of
            None \<Rightarrow> False
          | Some ct \<Rightarrow> ct \<noteq> [] \<and> str_includes ct ''application/sdp''))"

text \<open>The five headers that every reply of the engine echoes from the parsed request.\<close>

definition echo_headers :: "sip_message \<Rightarrow> (string \<times> js_string) list" where
  "echo_headers parsed =
     [(''Via'', Map_get (headers parsed) ''Via''),
      (''From'', Map_get (headers parsed) ''From''),
      (''To'', Map_get (headers parsed) ''To''),
      (''Call-ID'', Map_get (headers parsed) ''Call-ID''),
      (''CSeq'', Map_get (headers parsed) ''CSeq'')]"

definition reply :: "string \<Rightarrow> rinfo \<Rightarrow> packet" where
  "reply m ri = \<lparr>payload = m, dest_port = Some (port ri), dest_address = Some (address ri)\<rparr>"

subsection \<open>INVITE\<close>

text \<open>
  \<open>handleInvite\<close>, at time \<open>now\<close>. The result is the new state and the datagrams sent, in
  order; \<open>None\<close> stands for the \<open>TypeError\<close> of \<open>extractNumber\<close> on a header that is
  \<open>undefined\<close>.
\<close>

definition handleInvite ::
  "config \<Rightarrow> int \<Rightarrow> string \<Rightarrow> rinfo \<Rightarrow> server \<Rightarrow> (server \<times> packet list) option" where
  "handleInvite cfg now message ri srv =
     (let parsed = parseSipMessage message;
          hs = headers parsed
      in if validateInviteRequest cfg parsed \<noteq> Valid
         then Some (srv, [reply (createSipResponse (Some ''400'') ''Bad Request''
                                   (echo_headers parsed) []) ri])
      else case (Map_get hs ''To'', Map_get hs ''From'') of
             (Some toHeader, Some fromHeader) \<Rightarrow>
      (let cid = Map_get hs ''Call-ID'';
           fromNum = extractNumber fromHeader;
           toNum = extractNumber toHeader
       in case (getUser (userManager srv) toNum, getUser (userManager srv) fromNum) of
            (Some targetUser, Some callingUser) \<Rightarrow>
      if isNumberBusy (callManager srv) toNum
      then Some (srv, [reply (createSipResponse (Some ''486'') ''Busy Here''
                                (echo_headers parsed) []) ri])
      else
        (let cm1 = snd (createCall now cid fromNum toNum (address ri) (port ri) (body parsed)
                          (callManager srv));
             cm2 = snd (setTarget cid (user_address targetUser) (user_port targetUser) cm1);
             cm3 = snd (updateCallState cid RINGING
                          [OriginalVia (Map_get hs ''Via''), OriginalFrom (Map_get hs ''From''),
                           OriginalTo (Map_get hs ''To''), OriginalCSeq (Map_get hs ''CSeq''),
                           OriginalContact (Map_get hs ''Contact'')] cm2);
             tryingResponse = createSipResponse (Some ''100'') ''Trying'' (echo_headers parsed) [];
             modifiedSdp = (if is_sdp parsed then modifySdp cfg (body parsed) cid
                            else body parsed);
             targetUri = ''sip:'' @ null_str toNum @ ''@'' @ user_address targetUser @ '':''
                         @ toString (user_port targetUser);
             inviteToTarget =
               ''INVITE '' @ targetUri @ '' SIP/2.0'' @ CRLF
               @ ''Via: SIP/2.0/UDP '' @ sip_serverAddress cfg @ '':'' @ toString (sip_port cfg)
               @ CRLF
               @ ''From: '' @ fromHeader @ CRLF
               @ ''To: '' @ toHeader @ CRLF
               @ ''Call-ID: '' @ js_str cid @ CRLF
               @ ''CSeq: '' @ js_str (Map_get hs ''CSeq'') @ CRLF
               @ ''Contact: '' @ js_str (Map_get hs ''Contact'') @ CRLF
               @ (if truthy (Map_get hs ''Content-Type'')
                  then ''Content-Type: '' @ js_str (Map_get hs ''Content-Type'') @ CRLF else [])
               @ (if modifiedSdp \<noteq> []
                  then ''Content-Length: '' @ toString (length modifiedSdp) @ CRLF else [])
               @ CRLF
               @ (if modifiedSdp \<noteq> [] then modifiedSdp else []);
             cm4 = (if is_sdp parsed
                    then (case rtpPortMatch (body parsed) of
                            None \<Rightarrow> cm3
                          | Some ds \<Rightarrow>
                              snd (updateCallState cid RINGING [FromRtpPort (digits_value ds)]
                                     cm3))
                    else cm3)
         in Some (srv\<lparr>callManager := cm4\<rparr>,
                  [reply tryingResponse ri,
                   \<lparr>payload = inviteToTarget, dest_port = Some (user_port targetUser),
                    dest_address = Some (user_address targetUser)\<rparr>]))
          | _ \<Rightarrow>
      Some (srv, [reply (createSipResponse (Some ''404'') ''Not Found''
                           [(''Via'', Map_get hs ''Via''), (''From'', Some fromHeader),
                            (''To'', Some toHeader), (''Call-ID'', cid),
                            (''CSeq'', Map_get hs ''CSeq'')] []) ri]))
           | _ \<Rightarrow> None)"

subsection \<open>BYE\<close>

text \<open>\<open>handleBye\<close>: the new state and the datagrams sent, in order.\<close>

definition handleBye :: "string \<Rightarrow> rinfo \<Rightarrow> server \<Rightarrow> server \<times> packet list" where
  "handleBye message ri srv =
     (let parsed = parseSipMessage message;
          hs = headers parsed;
          cid = Map_get hs ''Call-ID'';
          response = createSipResponse (Some ''200'') ''OK'' (echo_headers parsed) []
      in case getCall (callManager srv) cid of
           Some c \<Rightarrow>
             (let byeMessage =
                    ''BYE '' @ null_str (call_toAddress c) @ '':'' @ null_num_str (call_toPort c)
                    @ '' SIP/2.0'' @ CRLF
                    @ ''Via: SIP/2.0/UDP '' @ address ri @ '':'' @ toString (port ri) @ CRLF
                    @ ''From: '' @ js_str (Map_get hs ''From'') @ CRLF
                    @ ''To: '' @ js_str (Map_get hs ''To'') @ CRLF
                    @ ''Call-ID: '' @ js_str cid @ CRLF
                    @ ''CSeq: '' @ js_str (Map_get hs ''CSeq'') @ CRLF
                    @ CRLF;
                  cm1 = (callManager srv)
                          \<lparr>activeCalls :=
                             Map_set cid (c\<lparr>terminating := True\<rparr>)
                               (activeCalls (callManager srv))\<rparr>
              in (srv\<lparr>callManager := cm1,
                       activeStreams := removeStream cid (activeStreams srv)\<rparr>,
                  [\<lparr>payload = byeMessage, dest_port = call_toPort c,
                     dest_address = call_toAddress c\<rparr>,
                   reply response ri]))
         | None \<Rightarrow> (srv, [reply response ri]))"

subsection \<open>Responses\<close>

text \<open>
  The branch of the \<open>message\<close> callback for a datagram whose first line starts with
  \<open>SIP/2.0\<close>, at time \<open>now\<close>. \<open>call.fromRtpPort\<close> is truthy when it is set and not zero.
\<close>

definition handleResponse ::
  "config \<Rightarrow> int \<Rightarrow> string \<Rightarrow> rinfo \<Rightarrow> server \<Rightarrow> server \<times> packet list" where
  "handleResponse cfg now message ri srv =
     (let parsed = parseSipMessage message;
          hs = headers parsed;
          statusLine = firstLine parsed;
          cid = Map_get hs ''Call-ID''
      in case getCall (callManager srv) cid of
           None \<Rightarrow> (srv, [])
         | Some c \<Rightarrow>
      if str_includes statusLine ''200 OK'' \<and> terminating c
      then (srv\<lparr>callManager := snd (endCall now cid ''NORMAL'' (callManager srv))\<rparr>, [])
      else if str_includes statusLine ''200 OK''
      then
        (let streams1 =
               (if is_sdp parsed
                then (case (rtpPortMatch (body parsed), fromRtpPort c) of
                        (Some ds, Some fromRtp) \<Rightarrow>
                          if fromRtp \<noteq> 0
                          then addStream cid (call_fromAddress c) fromRtp (address ri)
                                 (digits_value ds) (activeStreams srv)
                          else activeStreams srv
                      | _ \<Rightarrow> activeStreams srv)
                else activeStreams srv);
             responseHeaders =
               [(''Via'', js_or (originalVia c) (Map_get hs ''Via'')),
                (''From'', js_or (originalFrom c) (Map_get hs ''From'')),
                (''To'', js_or (originalTo c) (Map_get hs ''To'')),
                (''Call-ID'', cid),
                (''CSeq'', js_or (originalCSeq c) (Map_get hs ''CSeq'')),
                (''Contact'', Some ''<sip:101@192.168.0.42:5060>'')]
               @ (if truthy (Map_get hs ''Content-Type'')
                  then [(''Content-Type'', Map_get hs ''Content-Type'')] else []);
             responseBody =
               (if is_sdp parsed
                then modifySdp cfg (body parsed) (Some (js_str cid @ ''_response''))
                else body parsed);
             okResponse = createSipResponse (Some ''200'') ''OK'' responseHeaders responseBody;
             cm1 = snd (updateCallState cid ESTABLISHED [WaitingForAck True] (callManager srv))
         in (srv\<lparr>callManager := cm1, activeStreams := streams1\<rparr>,
             [\<lparr>payload = okResponse, dest_port = Some (call_fromPort c),
               dest_address = Some (call_fromAddress c)\<rparr>]))
      else if str_includes statusLine ''404'' \<or> str_includes statusLine ''486''
              \<or> str_includes statusLine ''487''
      then
        (let parts = split '' '' statusLine;
             errorResponse =
               createSipResponse (if length parts > 1 then Some (parts ! 1) else None)
                 (join '' '' (drop 2 parts)) (echo_headers parsed) []
         in (srv, [\<lparr>payload = errorResponse, dest_port = Some (call_fromPort c),
                     dest_address = Some (call_fromAddress c)\<rparr>]))
      else (srv, []))"

section \<open>A call between two registered extensions\<close>

text \<open>
  The configuration with the defaults of \<open>config.js\<close>, a registrar that holds extensions
  100 (at 10.0.0.5:5061) and 102 (at 10.0.0.6:5062), and the datagrams of one call from
  100 to 102: the caller's INVITE, the callee's 200 OK and the callee's BYE.
\<close>

definition default_config :: config where
  "default_config =
     \<lparr>sip_port = 5060, sip_serverAddress = ''192.168.0.42'', rtp_port = 10000,
      extensions_min = 100, extensions_max = 110, timeouts_callSetup = 30000\<rparr>"

definition server0 :: server where
  "server0 =
     \<lparr>userManager =
        snd (registerUser 0 (Some ''102'') ''sip:102@10.0.0.6:5062'' ''10.0.0.6'' 5062 3600
          (snd (registerUser 0 (Some ''100'') ''sip:100@10.0.0.5:5061'' ''10.0.0.5'' 5061 3600
            \<lparr>registeredUsers = [], registrationHistory = []\<rparr>))),
      callManager = \<lparr>activeCalls = [], callHistory = []\<rparr>,
      activeStreams = []\<rparr>"

definition caller_rinfo :: rinfo where
  "caller_rinfo = \<lparr>address = ''10.0.0.5'', port = 5061\<rparr>"

definition callee_rinfo :: rinfo where
  "callee_rinfo = \<lparr>address = ''10.0.0.6'', port = 5062\<rparr>"

definition invite_message :: string where
  "invite_message = join CRLF
     [''INVITE sip:102@192.168.0.42:5060 SIP/2.0'',
      ''Via: SIP/2.0/UDP 10.0.0.5:5061;branch=z9hG4bK-1'',
      ''From: <sip:100@192.168.0.42>;tag=a'',
      ''To: <sip:102@192.168.0.42>'',
      ''Call-ID: call-1'',
      ''CSeq: 1 INVITE'',
      ''Contact: <sip:100@10.0.0.5:5061>'',
      ''Content-Type: application/sdp'',
      '''',
      ''v=0'',
      ''o=alice 1 1 IN IP4 10.0.0.5'',
      ''s=-'',
      ''c=IN IP4 10.0.0.5'',
      ''t=0 0'',
      ''m=audio 40000 RTP/AVP 0'',
      '''']"

definition ok_message :: string where
  "ok_message = join CRLF
     [''SIP/2.0 200 OK'',
      ''Via: SIP/2.0/UDP 192.168.0.42:5060'',
      ''From: <sip:100@192.168.0.42>;tag=a'',
      ''To: <sip:102@192.168.0.42>;tag=b'',
      ''Call-ID: call-1'',
      ''CSeq: 1 INVITE'',
      ''Contact: <sip:102@10.0.0.6:5062>'',
      ''Content-Type: application/sdp'',
      '''',
      ''v=0'',
      ''o=bob 2 2 IN IP4 10.0.0.6'',
      ''s=-'',
      ''c=IN IP4 10.0.0.6'',
      ''t=0 0'',
      ''m=audio 41000 RTP/AVP 0'',
      '''']"

definition bye_message :: string where
  "bye_message = join CRLF
     [''BYE sip:100@192.168.0.42:5060 SIP/2.0'',
      ''Via: SIP/2.0/UDP 10.0.0.6:5062;branch=z9hG4bK-2'',
      ''From: <sip:102@192.168.0.42>;tag=b'',
      ''To: <sip:100@192.168.0.42>;tag=a'',
      ''Call-ID: call-1'',
      ''CSeq: 2 BYE'',
      '''',
      '''']"

text \<open>The server after the INVITE (at time 1000) and after the 200 OK (at time 2000).\<close>

definition server1 :: server where
  "server1 =
     (case handleInvite default_config 1000 invite_message caller_rinfo server0 of
        Some (srv, sent) \<Rightarrow> srv
      | None \<Rightarrow> server0)"

definition server2 :: server where
  "server2 = fst (handleResponse default_config 2000 ok_message callee_rinfo server1)"

section \<open>Well-formed header entries\<close>

text \<open>
  The header entries that the codec writes and reads back unchanged: the key has no
  colon, neither key nor value has a line feed or white space at its ends, the value is
  defined, and the key is not \<open>__proto__\<close>.
\<close>

definition wf_header :: "string \<times> js_string \<Rightarrow> bool" where
  "wf_header kv =
     (case kv of
        (key, None) \<Rightarrow> False
      | (key, Some v) \<Rightarrow>
          LF \<notin> set key \<and> CHR '':'' \<notin> set key \<and> trim key = key \<and> key \<noteq> ''__proto__''
          \<and> LF \<notin> set v \<and> trim v = v)"

text \<open>The line that \<open>createSipResponse\<close> writes for a header entry.\<close>

definition header_line :: "string \<times> js_string \<Rightarrow> string" where
  "header_line kv = fst kv @ '': '' @ js_str (snd kv)"

text \<open>
  A SIP URI with an explicit port, read as the validator's pattern reads it: the user
  digits \<open>n\<close>, a domain \<open>d\<close> without colon, a colon and the port digits \<open>p\<close>, and
  parameters \<open>ps\<close> that are absent or start with a semicolon.
\<close>

definition explicit_port_shape :: "string \<Rightarrow> string \<Rightarrow> string \<Rightarrow> string \<Rightarrow> string \<Rightarrow> bool" where
  "explicit_port_shape u n d p ps =
     (u = ''sip:'' @ n @ ''@'' @ d @ '':'' @ p @ ps
      \<and> n \<noteq> [] \<and> list_all is_digit n
      \<and> d \<noteq> [] \<and> CHR '':'' \<notin> set d
      \<and> p \<noteq> [] \<and> list_all is_digit p
      \<and> (ps = [] \<or> startsWith ps '';''))"

section \<open>Properties\<close>

subsection \<open>Maps\<close>




lemma Map_get_Nil: "Map_get [] k = None"
  by (simp add: Map_get_def)

subsection \<open>The stream table\<close>









subsection \<open>Strings\<close>

lemma startsWith_Nil [simp]: "startsWith s []"
  by (simp add: startsWith_def)

lemma startsWith_Cons_Cons [simp]: "startsWith (c # s) (d # p) = (c = d \<and> startsWith s p)"
  by (auto simp: startsWith_def)

lemma startsWith_Nil_left [simp]: "startsWith [] p = (p = [])"
  by (auto simp: startsWith_def)

lemma startsWith_append_same [simp]: "startsWith (p @ s) p"
  by (simp add: startsWith_def)

lemma split_line:
  "LF \<notin> set l \<Longrightarrow> split CRLF (l @ CRLF @ rest) = l # split CRLF rest"
proof (induction l)
  case Nil
  then show ?case by simp
next
  case (Cons c l)
  then have "\<not> startsWith (c # l @ CRLF @ rest) CRLF"
    by (cases l) auto
  with Cons show ?case by simp
qed





lemma dropWhile_spaces_append:
  "list_all is_space w \<Longrightarrow> dropWhile is_space (w @ s) = dropWhile is_space s"
  by (induction w) auto

lemma trim_prepend_spaces: "list_all is_space w \<Longrightarrow> trim (w @ s) = trim s"
  by (simp add: trim_def dropWhile_spaces_append)

lemma trim_append_spaces: "list_all is_space w \<Longrightarrow> trim (s @ w) = trim s"
proof (cases "list_all is_space s")
  case True
  assume "list_all is_space w"
  with True have "list_all is_space (s @ w)" by simp
  then have a: "dropWhile is_space (s @ w) = []"
    using dropWhile_spaces_append[of "s @ w" "[]"] by simp
  from True have b: "dropWhile is_space s = []"
    using dropWhile_spaces_append[of "s" "[]"] by simp
  show ?thesis unfolding trim_def a b by simp
next
  case False
  assume w: "list_all is_space w"
  from False have a: "dropWhile is_space (s @ w) = dropWhile is_space s @ w"
    by (auto simp: list_all_iff dropWhile_append)
  from w have b: "dropWhile is_space (rev w @ rev (dropWhile is_space s))
      = dropWhile is_space (rev (dropWhile is_space s))"
    by (intro dropWhile_spaces_append) simp
  show ?thesis unfolding trim_def a rev_append b by simp
qed

lemma split_headers:
  "\<forall>kv\<in>set hs. LF \<notin> set (header_line kv) \<Longrightarrow>
   split CRLF (concat (map (\<lambda>(key, v). key @ '': '' @ js_str v @ CRLF) hs) @ tail)
     = map header_line hs @ split CRLF tail"
proof (induction hs)
  case Nil
  then show ?case by simp
next
  case (Cons kv hs)
  obtain k v where kv: "kv = (k, v)" by (cases kv)
  from Cons.prems kv have "LF \<notin> set (k @ '': '' @ js_str v)"
    by (simp add: header_line_def)
  from split_line[OF this] Cons kv show ?case
    by (simp add: header_line_def)
qed

lemma Map_set_fresh: "k \<notin> fst ` set al \<Longrightarrow> Map_set k v al = al @ [(k, v)]"
  by (induction al) (auto simp: Map_set_def)

lemma foldl_Map_set_distinct:
  "distinct (map fst hs) \<Longrightarrow> fst ` set hs \<inter> fst ` set acc = {} \<Longrightarrow>
   foldl (\<lambda>a kv. Map_set (fst kv) (f (snd kv)) a) acc hs = acc @ map (\<lambda>kv. (fst kv, f (snd kv))) hs"
proof (induction hs arbitrary: acc)
  case Nil
  then show ?case by simp
next
  case (Cons kv hs)
  from Cons.prems have fresh: "fst kv \<notin> fst ` set acc" by auto
  from Cons.prems have "fst ` set hs \<inter> fst ` set (acc @ [(fst kv, f (snd kv))]) = {}"
    by (auto simp: image_iff)
  with Cons.IH[of "acc @ [(fst kv, f (snd kv))]"] Cons.prems fresh show ?case
    by (simp add: Map_set_fresh)
qed

lemma trim_id: "s \<noteq> [] \<Longrightarrow> \<not> is_space (hd s) \<Longrightarrow> \<not> is_space (last s) \<Longrightarrow> trim s = s"
proof -
  assume s: "s \<noteq> []" and h: "\<not> is_space (hd s)" and l: "\<not> is_space (last s)"
  from s h have a: "dropWhile is_space s = s" by (cases s) auto
  from s l have b: "dropWhile is_space (rev s) = rev s"
    by (cases "rev s") (auto simp: last_rev hd_rev)
  show ?thesis unfolding trim_def a b by simp
qed

lemma trim_space_Cons: "trim (CHR '' '' # v) = trim v"
  using trim_prepend_spaces[of "'' ''" v] by (simp add: is_space_def)

lemma takeWhile_until: "c \<notin> set k \<Longrightarrow> takeWhile (\<lambda>x. x \<noteq> c) (k @ c # r) = k"
  by (induction k) auto

lemma dropWhile_until: "c \<notin> set k \<Longrightarrow> dropWhile (\<lambda>x. x \<noteq> c) (k @ c # r) = c # r"
  by (induction k) auto

lemma parse_header_line:
  assumes "wf_header (k, Some v)"
  shows "parse_lines ((k @ '': '' @ v) # rest) acc b False
       = parse_lines rest (Map_set k v acc) b False"
proof -
  from assms have k: "CHR '':'' \<notin> set k" "trim k = k" "k \<noteq> ''__proto__''" and v: "trim v = v"
    by (simp_all add: wf_header_def)
  show ?thesis
    using k v by (simp add: takeWhile_until dropWhile_until header_assign_def trim_space_Cons)
qed

lemma parse_lines_headers:
  "\<forall>kv\<in>set hs. wf_header kv \<Longrightarrow>
   parse_lines (map header_line hs @ rest) acc b False
     = parse_lines rest (foldl (\<lambda>a kv. Map_set (fst kv) (js_str (snd kv)) a) acc hs) b False"
proof (induction hs arbitrary: acc)
  case Nil
  then show ?case by simp
next
  case (Cons kv hs)
  from Cons.prems obtain k v where kv: "kv = (k, Some v)"
    by (cases kv; cases "snd kv") (auto simp: wf_header_def)
  with Cons.prems have "wf_header (k, Some v)" by simp
  from parse_header_line[OF this] kv Cons show ?case
    by (simp add: header_line_def)
qed

lemma parse_lines_body:
  "parse_lines bl hs b True = (hs, b @ concat (map (\<lambda>l. l @ CRLF) (filter (\<lambda>l. l \<noteq> []) bl)))"
  by (induction bl arbitrary: b) auto

lemma split_not_Nil [simp]: "split sep s \<noteq> []"
  by (induction sep s rule: split.induct) (auto simp: neq_Nil_conv split: list.splits elim: cons_hd.elims)

lemma join_cons_hd: "X \<noteq> [] \<Longrightarrow> join sep (cons_hd c X) = c # join sep X"
proof (cases X)
  case Nil
  then show "X \<noteq> [] \<Longrightarrow> ?thesis" by simp
next
  case (Cons x xs)
  then show ?thesis by (cases xs) auto
qed

lemma join_Nil_Cons: "X \<noteq> [] \<Longrightarrow> join sep ([] # X) = sep @ join sep X"
  by (cases X) auto

lemma join_split: "sep \<noteq> [] \<Longrightarrow> join sep (split sep s) = s"
proof (induction sep s rule: split.induct)
  case (1 sep)
  then show ?case by simp
next
  case (2 sep c cs)
  show ?case
  proof (cases "startsWith (c # cs) sep")
    case True
    with 2 have IH: "join sep (split sep (drop (length sep - 1) cs)) = drop (length sep - 1) cs"
      by simp
    from True 2(3) have "c # cs = sep @ drop (length sep - 1) cs"
      by (cases sep) (auto simp: startsWith_def, metis append_take_drop_id)
    then have eq: "sep @ drop (length sep - 1) cs = c # cs" by simp
    from True 2(3) have "split sep (c # cs) = [] # split sep (drop (length sep - 1) cs)"
      by simp
    then have "join sep (split sep (c # cs)) = sep @ drop (length sep - 1) cs"
      using IH by (simp add: join_Nil_Cons)
    with eq show ?thesis by simp
  next
    case False
    with 2 show ?thesis by (simp add: join_cons_hd)
  qed
qed

lemma concat_lines_join:
  "bl \<noteq> [] \<Longrightarrow> concat (map (\<lambda>l. l @ sep) bl) = join sep bl @ sep"
  by (induction sep bl rule: join.induct) auto

lemma digit_of_is_digit: "is_digit (digit_of n)"
proof -
  have "n mod 10 < length ''0123456789''" by simp
  from nth_mem[OF this] show ?thesis by (simp add: is_digit_def)
qed

lemma toString_digits: "list_all is_digit (toString n) \<and> toString n \<noteq> []"
proof (induction n rule: toString.induct)
  case (1 n)
  show ?case
  proof (cases "n < 10")
    case True
    then have "toString n = [digit_of n]" by (subst toString.simps) simp
    then show ?thesis using digit_of_is_digit[of n] by simp
  next
    case False
    then have "toString n = toString (n div 10) @ [digit_of n]" by (subst toString.simps) simp
    with 1 False show ?thesis using digit_of_is_digit[of n] by simp
  qed
qed

lemma is_digit_not_space: "is_digit c \<Longrightarrow> \<not> is_space c"
  by (auto simp: is_digit_def is_space_def)

lemma is_digit_not_LF: "is_digit c \<Longrightarrow> c \<noteq> LF"
  by (auto simp: is_digit_def)

lemma toString_not_Nil: "toString n \<noteq> []"
  using toString_digits[of n] by simp

lemma toString_wf: "LF \<notin> set (toString n)" "trim (toString n) = toString n"
proof -
  have all: "\<forall>c\<in>set (toString n). is_digit c"
    using toString_digits[of n] by (simp add: list_all_iff)
  then show "LF \<notin> set (toString n)"
    using is_digit_not_LF by blast
  have "hd (toString n) \<in> set (toString n)" "last (toString n) \<in> set (toString n)"
    using toString_not_Nil[of n] by auto
  with all have "\<not> is_space (hd (toString n))" "\<not> is_space (last (toString n))"
    using is_digit_not_space by blast+
  with toString_not_Nil[of n] show "trim (toString n) = toString n" by (rule trim_id)
qed

lemma wf_content_length: "wf_header (''Content-Length'', Some (toString n))"
  by (simp add: wf_header_def toString_wf trim_id is_space_def)

lemma wf_header_line: "wf_header kv \<Longrightarrow> LF \<notin> set (header_line kv)"
  by (cases kv; cases "snd kv") (auto simp: wf_header_def header_line_def)

subsection \<open>The message codec\<close>

lemma parse_createSipResponse:
  assumes wf_code: "LF \<notin> set (js_str statusCode)" and wf_text: "LF \<notin> set statusText"
    and hs: "\<forall>kv\<in>set hs. wf_header kv" and dist: "distinct (map fst hs)"
    and body: "b = [] \<or> (trim b = b \<and> [] \<notin> set (split CRLF b))"
  shows "parseSipMessage (createSipResponse statusCode statusText hs b) =
     \<lparr>firstLine = ''SIP/2.0 '' @ js_str statusCode @ '' '' @ statusText,
      headers = (if b = [] then map (\<lambda>(key, v). (key, js_str v)) hs
                 else Map_set ''Content-Length'' (toString (length b))
                        (map (\<lambda>(key, v). (key, js_str v)) hs)),
      body = b\<rparr>"
proof -
  let ?first = "''SIP/2.0 '' @ js_str statusCode @ '' '' @ statusText"
  let ?H = "map (\<lambda>(key, v). (key, js_str v)) hs"
  let ?tail = "(if b \<noteq> [] then ''Content-Length: '' @ toString (length b) @ CRLF else [])
               @ CRLF @ (if b \<noteq> [] then b else [])"
  from wf_code wf_text have first: "LF \<notin> set ?first" by simp
  from hs have lines: "\<forall>kv\<in>set hs. LF \<notin> set (header_line kv)"
    by (simp add: wf_header_line)
  have msg: "createSipResponse statusCode statusText hs b
      = ?first @ CRLF @ (concat (map (\<lambda>(key, v). key @ '': '' @ js_str v @ CRLF) hs) @ ?tail)"
    by (simp add: createSipResponse_def)
  have sp: "split CRLF (createSipResponse statusCode statusText hs b)
      = ?first # (map header_line hs @ split CRLF ?tail)"
    unfolding msg using split_line[OF first] split_headers[OF lines] by simp
  have H: "foldl (\<lambda>a kv. Map_set (fst kv) (js_str (snd kv)) a) [] hs = ?H"
    using foldl_Map_set_distinct[OF dist, of "[]" js_str] by (simp add: case_prod_unfold)
  have pl: "parse_lines (map header_line hs @ rest) [] [] False = parse_lines rest ?H [] False"
    for rest
    using parse_lines_headers[OF hs, of rest "[]" "[]"] H by simp
  show ?thesis
  proof (cases "b = []")
    case True
    have "split CRLF CRLF = [[], []]"
      using split_line[of "[]" "[]"] by simp
    with True sp pl[of "[[], []]"] show ?thesis
      by (simp add: parseSipMessage_def trim_def)
  next
    case False
    with body have tb: "trim b = b" and ne: "[] \<notin> set (split CRLF b)" by auto
    let ?cl = "''Content-Length: '' @ toString (length b)"
    have "LF \<notin> set ?cl" by (simp add: toString_wf)
    from split_line[OF this, of "CRLF @ b"] split_line[of "[]" b] False
    have t: "split CRLF ?tail = ?cl # [] # split CRLF b" by simp
    have "parse_lines (?cl # [] # split CRLF b) ?H [] False
        = parse_lines ([] # split CRLF b) (Map_set ''Content-Length'' (toString (length b)) ?H)
            [] False"
      using parse_header_line[OF wf_content_length, of "length b"] by simp
    also have "\<dots> = (Map_set ''Content-Length'' (toString (length b)) ?H,
                      concat (map (\<lambda>l. l @ CRLF) (filter (\<lambda>l. l \<noteq> []) (split CRLF b))))"
      by (simp add: parse_lines_body)
    also from ne have "filter (\<lambda>l. l \<noteq> []) (split CRLF b) = split CRLF b"
      by (auto simp: filter_id_conv)
    also have "concat (map (\<lambda>l. l @ CRLF) (split CRLF b)) = b @ CRLF"
      using concat_lines_join[of "split CRLF b" CRLF] join_split[of CRLF b] by simp
    finally have "parse_lines (?cl # [] # split CRLF b) ?H [] False
        = (Map_set ''Content-Length'' (toString (length b)) ?H, b @ CRLF)" .
    moreover have "trim (b @ CRLF) = b"
      using trim_append_spaces[of CRLF b] tb by (simp add: is_space_def)
    ultimately show ?thesis
      using False sp t pl[of "?cl # [] # split CRLF b"]
      by (simp add: parseSipMessage_def)
  qed
qed




text \<open>
  Claim C7, as the code has it. For a status code and text without line feed and a
  header list of well-formed entries with distinct keys, parsing the serialized response
  returns the same first line and the same body, when the body is empty or is trimmed
  and has no empty line. The headers returned are the given headers when the body is
  empty; for a body that is not empty they are the given headers with \<open>Content-Length\<close>
  set to the length of the body.
\<close>

theorem C7_roundtrip:
  assumes "LF \<notin> set (js_str statusCode)" and "LF \<notin> set statusText"
    and "\<forall>kv\<in>set hs. wf_header kv" and "distinct (map fst hs)"
    and "b = [] \<or> (trim b = b \<and> [] \<notin> set (split CRLF b))"
  shows "parseSipMessage (createSipResponse statusCode statusText hs b) =
     \<lparr>firstLine = ''SIP/2.0 '' @ js_str statusCode @ '' '' @ statusText,
      headers = (if b = [] then map (\<lambda>(key, v). (key, js_str v)) hs
                 else Map_set ''Content-Length'' (toString (length b))
                        (map (\<lambda>(key, v). (key, js_str v)) hs)),
      body = b\<rparr>"
  using assms by (rule parse_createSipResponse)

theorem C7_roundtrip_witness:
  "parseSipMessage (createSipResponse (Some ''486'') ''Busy Here''
       [(''Via'', Some ''SIP/2.0/UDP 10.0.0.5:5061''), (''Call-ID'', Some ''call-1'')] [])
     = \<lparr>firstLine = ''SIP/2.0 486 Busy Here'',
        headers = [(''Via'', ''SIP/2.0/UDP 10.0.0.5:5061''), (''Call-ID'', ''call-1'')],
        body = []\<rparr>
   \<and> parseSipMessage (createSipResponse (Some ''200'') ''OK''
       [(''Call-ID'', Some ''call-1'')] ''v=0'')
     = \<lparr>firstLine = ''SIP/2.0 200 OK'',
        headers = [(''Call-ID'', ''call-1''), (''Content-Length'', ''3'')],
        body = ''v=0''\<rparr>"
  using C7_roundtrip[of "Some ''486''" "''Busy Here''"
      "[(''Via'', Some ''SIP/2.0/UDP 10.0.0.5:5061''), (''Call-ID'', Some ''call-1'')]" "[]"]
    C7_roundtrip[of "Some ''200''" "''OK''" "[(''Call-ID'', Some ''call-1'')]" "''v=0''"]
  by (simp add: wf_header_def trim_def is_space_def Map_set_def toString.simps)

text \<open>
  With a body the parsed headers are not the serialized ones: the codec adds
  \<open>Content-Length\<close>.
\<close>

theorem C7_roundtrip_counterexample:
  "headers (parseSipMessage (createSipResponse (Some ''200'') ''OK''
       [(''Call-ID'', Some ''call-1'')] ''v=0''))
     \<noteq> [(''Call-ID'', ''call-1'')]"
  using parse_createSipResponse[of "Some ''200''" "''OK''" "[(''Call-ID'', Some ''call-1'')]"
      "''v=0''"]
  by (simp add: wf_header_def trim_def is_space_def Map_set_def)

subsection \<open>The SIP URI check\<close>

lemma takeWhile_stop:
  "list_all P xs \<Longrightarrow> (ys = [] \<or> \<not> P (hd ys)) \<Longrightarrow> takeWhile P (xs @ ys) = xs"
  by (induction xs; cases ys) auto

lemma dropWhile_stop:
  "list_all P xs \<Longrightarrow> (ys = [] \<or> \<not> P (hd ys)) \<Longrightarrow> dropWhile P (xs @ ys) = ys"
  by (induction xs; cases ys) auto

lemma not_colon_all: "CHR '':'' \<notin> set d \<Longrightarrow> list_all (\<lambda>c. c \<noteq> CHR '':'') d"
  by (induction d) auto

lemma shape_match:
  assumes "explicit_port_shape u n d p ps"
  shows "sip_uri_match u = Some (n, d, Some p)"
proof -
  from assms have u: "u = ''sip:'' @ n @ ''@'' @ d @ '':'' @ p @ ps"
    and n: "n \<noteq> []" "list_all is_digit n" and d: "d \<noteq> []" "CHR '':'' \<notin> set d"
    and p: "p \<noteq> []" "list_all is_digit p" and ps: "ps = [] \<or> startsWith ps '';''"
    by (simp_all add: explicit_port_shape_def)
  have at: "\<not> is_digit (CHR ''@'')" and semi: "\<not> is_digit (CHR '';'')"
    by (simp_all add: is_digit_def)
  have n1: "takeWhile is_digit (n @ ''@'' @ d @ '':'' @ p @ ps) = n"
    using takeWhile_stop[OF n(2), of "''@'' @ d @ '':'' @ p @ ps"] at by simp
  have n2: "dropWhile is_digit (n @ ''@'' @ d @ '':'' @ p @ ps) = ''@'' @ d @ '':'' @ p @ ps"
    using dropWhile_stop[OF n(2), of "''@'' @ d @ '':'' @ p @ ps"] at by simp
  have d1: "takeWhile (\<lambda>c. c \<noteq> CHR '':'') (d @ '':'' @ p @ ps) = d"
    using takeWhile_stop[OF not_colon_all[OF d(2)], of "'':'' @ p @ ps"] by simp
  have d2: "dropWhile (\<lambda>c. c \<noteq> CHR '':'') (d @ '':'' @ p @ ps) = '':'' @ p @ ps"
    using dropWhile_stop[OF not_colon_all[OF d(2)], of "'':'' @ p @ ps"] by simp
  from ps semi have stop: "ps = [] \<or> \<not> is_digit (hd ps)"
    by (cases ps) auto
  have p1: "takeWhile is_digit (p @ ps) = p"
    using takeWhile_stop[OF p(2) stop] .
  have p2: "dropWhile is_digit (p @ ps) = ps"
    using dropWhile_stop[OF p(2) stop] .
  show ?thesis
    unfolding u sip_uri_match_def
    using n d p ps n1 n2 d1 d2 p1 p2 by (simp add: Let_def)
qed

lemma match_shape:
  assumes "sip_uri_match u = Some (n, d, Some p)"
  shows "\<exists>ps. explicit_port_shape u n d p ps"
proof -
  let ?r0 = "dropWhile is_digit (drop 4 u)"
  let ?rest = "drop 1 ?r0"
  let ?after = "dropWhile (\<lambda>c. c \<noteq> CHR '':'') ?rest"
  let ?tail = "dropWhile is_digit (drop 1 ?after)"
  from assms have sw: "startsWith u ''sip:''"
    and n: "n = takeWhile is_digit (drop 4 u)" "n \<noteq> []"
    and r0: "startsWith ?r0 ''@''"
    and d: "d = takeWhile (\<lambda>c. c \<noteq> CHR '':'') ?rest" "d \<noteq> []"
    and after: "?after \<noteq> []"
    and p: "p = takeWhile is_digit (drop 1 ?after)" "p \<noteq> []"
    and tail: "?tail = [] \<or> startsWith ?tail '';''"
    by (auto simp: sip_uri_match_def Let_def split: if_splits)
  from sw have "take 4 u = ''sip:''" by (simp add: startsWith_def eval_nat_numeral)
  with append_take_drop_id[of 4 u] have u1: "u = ''sip:'' @ drop 4 u" by simp
  have u2: "drop 4 u = n @ ?r0" using n by simp
  from r0 have u3: "?r0 = ''@'' @ ?rest" by (cases ?r0) auto
  have u4: "?rest = d @ ?after" using d by simp
  from after have "hd ?after = CHR '':''"
    using hd_dropWhile[of "\<lambda>c. c \<noteq> CHR '':''" ?rest] by auto
  with after have u5: "?after = '':'' @ drop 1 ?after" by (cases ?after) auto
  have u6: "drop 1 ?after = p @ ?tail" using p by simp
  have "u = ''sip:'' @ n @ ''@'' @ d @ '':'' @ p @ ?tail"
    using u1 u2 u3 u4 u5 u6 by (metis append_assoc)
  moreover have "list_all is_digit n" "list_all is_digit p"
    using n p by (auto simp: list_all_iff dest: set_takeWhileD)
  moreover have "CHR '':'' \<notin> set d"
    using d by (auto dest: set_takeWhileD)
  ultimately have "explicit_port_shape u n d p ?tail"
    using n d p tail by (simp add: explicit_port_shape_def)
  then show ?thesis ..
qed


lemma validateSipUri_Inr:
  assumes "validateSipUri cfg (Some u) = Inr r"
  shows "\<exists>n d port. sip_uri_match u = Some (n, d, port)
           \<and> uri_port r = js_str (js_or port (Some ''5060''))"
  using assms
  by (auto simp: validateSipUri_def split: if_splits option.splits prod.splits)

text \<open>
  Claim C10. For every URI that \<open>validateSipUri\<close> accepts: when the URI has an explicit
  port, the result's port is that port, unchanged; when it has none, the result's port
  is the string \<open>"5060"\<close>.
\<close>

theorem C10_default_port:
  assumes "validateSipUri cfg (Some u) = Inr r"
  shows "(\<forall>n d p ps. explicit_port_shape u n d p ps \<longrightarrow> uri_port r = p)
       \<and> ((\<forall>n d p ps. \<not> explicit_port_shape u n d p ps) \<longrightarrow> uri_port r = ''5060'')"
proof -
  from validateSipUri_Inr[OF assms] obtain n d port
    where m: "sip_uri_match u = Some (n, d, port)"
      and r: "uri_port r = js_str (js_or port (Some ''5060''))" by blast
  have "uri_port r = p" if "explicit_port_shape u n' d' p ps" for n' d' p ps
  proof -
    from shape_match[OF that] m have "port = Some p" by simp
    moreover from that have "p \<noteq> []" by (simp add: explicit_port_shape_def)
    ultimately show ?thesis using r by (simp add: js_or_def)
  qed
  moreover have "uri_port r = ''5060''" if "\<forall>n d p ps. \<not> explicit_port_shape u n d p ps"
  proof (cases port)
    case None
    with r show ?thesis by (simp add: js_or_def)
  next
    case (Some p)
    with m match_shape[of u n d p] that show ?thesis by blast
  qed
  ultimately show ?thesis by blast
qed

lemma valid_ext_default:
  "validExtensions default_config
     = [''100'', ''101'', ''102'', ''103'', ''104'', ''105'', ''106'', ''107'', ''108'', ''109'',
        ''110'']"
  by (simp add: validExtensions_def default_config_def upt_rec toString.simps)

lemma match_with_port:
  "sip_uri_match ''sip:100@host:5070;transport=udp'' = Some (''100'', ''host'', Some ''5070'')"
  by (simp add: sip_uri_match_def is_digit_def)

lemma match_without_port: "sip_uri_match ''sip:100@host'' = Some (''100'', ''host'', None)"
  by (simp add: sip_uri_match_def is_digit_def)

theorem C10_default_port_witness:
  "validateSipUri default_config (Some ''sip:100@host:5070;transport=udp'')
     = Inr \<lparr>uri_number = ''100'', uri_domain = ''host'', uri_port = ''5070''\<rparr>
   \<and> explicit_port_shape ''sip:100@host:5070;transport=udp'' ''100'' ''host'' ''5070''
         '';transport=udp''
   \<and> validateSipUri default_config (Some ''sip:100@host'')
     = Inr \<lparr>uri_number = ''100'', uri_domain = ''host'', uri_port = ''5060''\<rparr>"
proof -
  have v1: "validateSipUri default_config (Some ''sip:100@host:5070;transport=udp'')
     = Inr \<lparr>uri_number = ''100'', uri_domain = ''host'', uri_port = ''5070''\<rparr>"
    by (simp add: validateSipUri_def match_with_port valid_ext_default js_or_def)
  have s1: "explicit_port_shape ''sip:100@host:5070;transport=udp'' ''100'' ''host'' ''5070''
         '';transport=udp''"
    by (simp add: explicit_port_shape_def is_digit_def)
  have v2: "\<exists>p. validateSipUri default_config (Some ''sip:100@host'')
     = Inr \<lparr>uri_number = ''100'', uri_domain = ''host'', uri_port = p\<rparr>"
    by (simp add: validateSipUri_def match_without_port valid_ext_default)
  then obtain p where v2': "validateSipUri default_config (Some ''sip:100@host'')
     = Inr \<lparr>uri_number = ''100'', uri_domain = ''host'', uri_port = p\<rparr>" ..
  have no: "\<forall>n d p ps. \<not> explicit_port_shape ''sip:100@host'' n d p ps"
  proof (intro allI notI)
    fix n d p ps
    assume "explicit_port_shape ''sip:100@host'' n d p ps"
    from shape_match[OF this] match_without_port show False by simp
  qed
  from C10_default_port[OF v2'] no have "p = ''5060''" by simp
  with v1 s1 v2' show ?thesis by simp
qed


end
